theory Spec2Isabelle
  imports Complex_Main
begin

section \<open>Documents and the store\<close>

text \<open>
  The backend keeps three collections that matter for the rating aggregates: movies,
  users and reviews. An ObjectId is modelled as a natural number. Of a movie and of a
  user only the cached aggregate fields are kept: no review operation reads or writes
  any other field of these documents. JavaScript numbers are modelled as exact rationals,
  with \<open>NaN\<close> kept apart where the code can produce it (\<open>0 / 0\<close>).
\<close>

type_synonym oid = nat

record movie_doc =
  averageRating :: rat
  totalRatings :: nat
  totalReviews :: nat

text \<open>
  Modelled from the spec: the User schema (models/User.js) is not among the sources; the
  hooks and the statistics handler use its fields \<open>totalReviews\<close> and
  \<open>averageRating\<close>. Its validators are unknown and are a parameter
  \<open>userValid\<close> of every operation that saves a user.
\<close>

record user_doc =
  u_totalReviews :: nat
  u_averageRating :: rat

record review_doc =
  user :: oid
  movie :: oid
  rating :: int
  reviewText :: string
  helpful :: int
  spoiler :: bool
  likes :: "oid list"
  dislikes :: "oid list"

record store =
  movies :: "oid \<rightharpoonup> movie_doc"
  users :: "oid \<rightharpoonup> user_doc"
  reviews :: "(oid \<times> review_doc) list"

datatype jsnum = Num rat | NaN

datatype outcome = Done store | Failed store

fun store_of :: "outcome \<Rightarrow> store" where
  "store_of (Done st) = st"
| "store_of (Failed st) = st"

section \<open>Queries\<close>

definition findById :: "store \<Rightarrow> oid \<Rightarrow> review_doc option" where
  "findById st reviewId = map_of (reviews st) reviewId"

definition find_movie :: "store \<Rightarrow> oid \<Rightarrow> review_doc list" where
  "find_movie st m = filter (\<lambda>r. movie r = m) (map snd (reviews st))"

definition find_user :: "store \<Rightarrow> oid \<Rightarrow> review_doc list" where
  "find_user st u = filter (\<lambda>r. user r = u) (map snd (reviews st))"

definition findOne :: "store \<Rightarrow> oid \<Rightarrow> oid \<Rightarrow> review_doc option" where
  "findOne st u m = List.find (\<lambda>r. user r = u \<and> movie r = m) (map snd (reviews st))"

section \<open>The rounded mean\<close>

definition Math_round :: "rat \<Rightarrow> rat" where
  "Math_round x = of_int \<lfloor>x + 1 / 2\<rfloor>"

definition totalRating :: "review_doc list \<Rightarrow> int" where
  "totalRating rs = foldl (\<lambda>sum review. sum + rating review) 0 rs"

text \<open>
  \<open>Math.round((totalRating / length) * 10) / 10\<close>. On an empty array the sum is
  \<open>0\<close> and JavaScript's \<open>0 / 0\<close> is \<open>NaN\<close>, which rounding, multiplying and
  dividing keep.
\<close>

definition rounded_mean :: "review_doc list \<Rightarrow> jsnum" where
  "rounded_mean rs =
     (if length rs = 0 then NaN
      else Num (Math_round ((of_int (totalRating rs) / of_nat (length rs)) * 10) / 10))"

section \<open>Saving a movie and a user\<close>

text \<open>
  \<open>movie.save()\<close> after the three assignments. Mongoose refuses to cast \<open>NaN\<close> to
  a Number path and the schema bounds \<open>averageRating\<close> by \<open>0\<close> and \<open>5\<close>; in
  both cases the save is rejected and the stored movie is left as it was.
\<close>

definition movie_save :: "store \<Rightarrow> oid \<Rightarrow> movie_doc \<Rightarrow> jsnum \<Rightarrow> nat \<Rightarrow> nat \<Rightarrow> outcome" where
  "movie_save st mid m avg ratings revs =
     (case avg of
        NaN \<Rightarrow> Failed st
      | Num a \<Rightarrow>
          if a < 0 then Failed st
          else if 5 < a then Failed st
          else Done (st\<lparr>movies := (movies st)(mid \<mapsto>
                 m\<lparr>averageRating := a, totalRatings := ratings, totalReviews := revs\<rparr>)\<rparr>))"

definition user_save :: "(user_doc \<Rightarrow> bool) \<Rightarrow> store \<Rightarrow> oid \<Rightarrow> user_doc \<Rightarrow> outcome" where
  "user_save userValid st uid u =
     (if userValid u then Done (st\<lparr>users := (users st)(uid \<mapsto> u)\<rparr>) else Failed st)"

section \<open>The hooks of the review schema\<close>

text \<open>
  \<open>reviewSchema.pre('save')\<close>: it runs before the review is written, so both
  \<open>find\<close> queries read the collection as it is stored at that moment.
\<close>

definition pre_save_movie :: "store \<Rightarrow> review_doc \<Rightarrow> outcome" where
  "pre_save_movie st this =
     (case movies st (movie this) of
        None \<Rightarrow> Done st
      | Some m \<Rightarrow>
          (let allReviews = find_movie st (movie this)
           in movie_save st (movie this) m (rounded_mean allReviews)
                (length allReviews) (length allReviews)))"

definition pre_save_user :: "(user_doc \<Rightarrow> bool) \<Rightarrow> store \<Rightarrow> review_doc \<Rightarrow> outcome" where
  "pre_save_user userValid st this =
     (case users st (user this) of
        None \<Rightarrow> Done st
      | Some u \<Rightarrow>
          (let userReviews = find_user st (user this)
           in user_save userValid st (user this)
                (u\<lparr>u_totalReviews := length userReviews,
                   u_averageRating :=
                     (if length userReviews > 0
                      then Math_round ((of_int (totalRating userReviews)
                             / of_nat (length userReviews)) * 10) / 10
                      else 0)\<rparr>)))"

definition pre_save :: "(user_doc \<Rightarrow> bool) \<Rightarrow> store \<Rightarrow> review_doc \<Rightarrow> outcome" where
  "pre_save userValid st this =
     (case pre_save_movie st this of
        Failed st' \<Rightarrow> Failed st'
      | Done st' \<Rightarrow> pre_save_user userValid st' this)"

text \<open>\<open>reviewSchema.pre('remove')\<close>: it runs before the review is deleted.\<close>

definition pre_remove_movie :: "store \<Rightarrow> review_doc \<Rightarrow> outcome" where
  "pre_remove_movie st this =
     (case movies st (movie this) of
        None \<Rightarrow> Done st
      | Some m \<Rightarrow>
          (let remainingReviews = find_movie st (movie this)
           in if length remainingReviews > 0
              then movie_save st (movie this) m (rounded_mean remainingReviews)
                     (length remainingReviews) (length remainingReviews)
              else movie_save st (movie this) m (Num 0) 0 0))"

definition pre_remove_user :: "(user_doc \<Rightarrow> bool) \<Rightarrow> store \<Rightarrow> review_doc \<Rightarrow> outcome" where
  "pre_remove_user userValid st this =
     (case users st (user this) of
        None \<Rightarrow> Done st
      | Some u \<Rightarrow>
          (let userReviews = find_user st (user this)
           in user_save userValid st (user this)
                (u\<lparr>u_totalReviews := length userReviews,
                   u_averageRating :=
                     (if length userReviews > 0
                      then Math_round ((of_int (totalRating userReviews)
                             / of_nat (length userReviews)) * 10) / 10
                      else 0)\<rparr>)))"

definition pre_remove :: "(user_doc \<Rightarrow> bool) \<Rightarrow> store \<Rightarrow> review_doc \<Rightarrow> outcome" where
  "pre_remove userValid st this =
     (case pre_remove_movie st this of
        Failed st' \<Rightarrow> Failed st'
      | Done st' \<Rightarrow> pre_remove_user userValid st' this)"

section \<open>Saving and removing a review\<close>

text \<open>
  \<open>review.save()\<close> (\<open>review_save\<close>, with \<open>None\<close> for a new document and
  the id of a stored one) and \<open>review.remove()\<close> (\<open>review_remove\<close>). On a save
  the schema's own validators (\<open>rating\<close> between 1 and 5, \<open>reviewText\<close> of 10
  to 2000 characters) run first, then the pre-save hook, then the write: an insert for
  a new document (refused by the unique index on the pair of user and movie), an update
  in place for a stored one. A failure carries the store as it is at that moment: what a
  hook has already saved stays saved.
\<close>

definition review_valid :: "review_doc \<Rightarrow> bool" where
  "review_valid r =
     (1 \<le> rating r \<and> rating r \<le> 5
      \<and> 10 \<le> length (reviewText r) \<and> length (reviewText r) \<le> 2000)"

definition new_id :: "store \<Rightarrow> oid" where
  "new_id st = Suc (foldr max (map fst (reviews st)) 0)"

text \<open>\<open>updateOne\<close> and \<open>deleteOne\<close> by \<open>_id\<close>: the first stored document with that id.\<close>

fun replace_doc :: "oid \<Rightarrow> review_doc \<Rightarrow> (oid \<times> review_doc) list \<Rightarrow> (oid \<times> review_doc) list" where
  "replace_doc i d [] = []"
| "replace_doc i d ((j, r) # xs) = (if j = i then (j, d) # xs else (j, r) # replace_doc i d xs)"

fun delete_doc :: "oid \<Rightarrow> (oid \<times> review_doc) list \<Rightarrow> (oid \<times> review_doc) list" where
  "delete_doc i [] = []"
| "delete_doc i ((j, r) # xs) = (if j = i then xs else (j, r) # delete_doc i xs)"

definition write_review :: "store \<Rightarrow> oid option \<Rightarrow> review_doc \<Rightarrow> outcome" where
  "write_review st rid this =
     (case rid of
        None \<Rightarrow>
          (case findOne st (user this) (movie this) of
             Some dup \<Rightarrow> Failed st
           | None \<Rightarrow> Done (st\<lparr>reviews := reviews st @ [(new_id st, this)]\<rparr>))
      | Some i \<Rightarrow> Done (st\<lparr>reviews := replace_doc i this (reviews st)\<rparr>))"

definition review_save :: "(user_doc \<Rightarrow> bool) \<Rightarrow> store \<Rightarrow> oid option \<Rightarrow> review_doc \<Rightarrow> outcome" where
  "review_save userValid st rid this =
     (if review_valid this
      then (case pre_save userValid st this of
              Failed st' \<Rightarrow> Failed st'
            | Done st' \<Rightarrow> write_review st' rid this)
      else Failed st)"

definition review_remove :: "(user_doc \<Rightarrow> bool) \<Rightarrow> store \<Rightarrow> oid \<Rightarrow> review_doc \<Rightarrow> outcome" where
  "review_remove userValid st rid this =
     (case pre_remove userValid st this of
        Failed st' \<Rightarrow> Failed st'
      | Done st' \<Rightarrow> Done (st'\<lparr>reviews := delete_doc rid (reviews st')\<rparr>))"

section \<open>Reactions\<close>

fun indexOf :: "oid list \<Rightarrow> oid \<Rightarrow> int" where
  "indexOf [] x = - 1"
| "indexOf (y # ys) x =
     (if y = x then 0
      else (let i = indexOf ys x in if i = - 1 then - 1 else i + 1))"

text \<open>\<open>xs.splice(i, 1)\<close>; a negative start counts from the end, as in JavaScript.\<close>

definition splice1 :: "oid list \<Rightarrow> int \<Rightarrow> oid list" where
  "splice1 xs i =
     (let n = int (length xs);
          s = (if i < 0 then max (n + i) 0 else min i n)
      in take (nat s) xs @ drop (nat s + 1) xs)"

text \<open>The body of \<open>toggleReaction\<close> before its final \<open>this.save()\<close>.\<close>

definition toggle :: "review_doc \<Rightarrow> oid \<Rightarrow> string \<Rightarrow> review_doc" where
  "toggle this userId reactionType =
     (let likeIndex = indexOf (likes this) userId;
          dislikeIndex = indexOf (dislikes this) userId
      in if reactionType = ''like''
         then (if likeIndex > - 1
               then this\<lparr>likes := splice1 (likes this) likeIndex\<rparr>
               else (let this' = this\<lparr>likes := likes this @ [userId]\<rparr>
                     in if dislikeIndex > - 1
                        then this'\<lparr>dislikes := splice1 (dislikes this') dislikeIndex\<rparr>
                        else this'))
         else if reactionType = ''dislike''
         then (if dislikeIndex > - 1
               then this\<lparr>dislikes := splice1 (dislikes this) dislikeIndex\<rparr>
               else (let this' = this\<lparr>dislikes := dislikes this @ [userId]\<rparr>
                     in if likeIndex > - 1
                        then this'\<lparr>likes := splice1 (likes this') likeIndex\<rparr>
                        else this'))
         else this)"

definition toggleReaction ::
  "(user_doc \<Rightarrow> bool) \<Rightarrow> store \<Rightarrow> oid \<Rightarrow> review_doc \<Rightarrow> oid \<Rightarrow> string \<Rightarrow> outcome" where
  "toggleReaction userValid st rid this userId reactionType =
     review_save userValid st (Some rid) (toggle this userId reactionType)"

section \<open>The review routes\<close>

text \<open>
  \<open>req.body\<close> after JSON parsing: the fields the handlers read, each absent
  (\<open>None\<close>) or present, and every other field of the body in \<open>b_other\<close>.
  The acting user is \<open>req.user._id\<close>, resolved by the authentication middleware.
\<close>

record body =
  b_movieId :: "oid option"
  b_rating :: "int option"
  b_reviewText :: "string option"
  b_spoiler :: "bool option"
  b_reactionType :: "string option"
  b_other :: "(string \<times> string) list"

datatype response =
    Created review_doc
  | Updated review_doc
  | Deleted
  | Reacted review_doc
  | ValidationFailed
  | NotFound
  | DuplicateReview
  | NotAuthorized
  | SelfReaction
  | ServerError

text \<open>
  The \<open>trim\<close> sanitizer strips what JavaScript's \<open>\s\<close> matches at both ends.
  A \<open>char\<close> is a code unit below 256; of the characters that \<open>\s\<close> matches,
  these are space, tab, line feed, vertical tab, form feed, carriage return and the
  no-break space U+00A0.
\<close>

definition is_space :: "char \<Rightarrow> bool" where
  "is_space c =
     (c \<in> set [CHR '' '', CHR 0x09, CHR 0x0A, CHR 0x0B, CHR 0x0C, CHR 0x0D, CHR 0xA0])"

definition trim :: "string \<Rightarrow> string" where
  "trim s = rev (dropWhile is_space (rev (dropWhile is_space s)))"

definition rating_ok :: "int \<Rightarrow> bool" where
  "rating_ok n = (1 \<le> n \<and> n \<le> 5)"

definition text_ok :: "string \<Rightarrow> bool" where
  "text_ok s = (10 \<le> length (trim s) \<and> length (trim s) \<le> 2000)"

text \<open>\<open>router.post('/')\<close>: submit a new review.\<close>

definition post_valid :: "body \<Rightarrow> bool" where
  "post_valid b =
     (case b_movieId b of None \<Rightarrow> False | Some m \<Rightarrow>
        (case b_rating b of None \<Rightarrow> False | Some n \<Rightarrow>
           (case b_reviewText b of None \<Rightarrow> False | Some s \<Rightarrow>
              rating_ok n \<and> text_ok s)))"

definition post_review :: "(user_doc \<Rightarrow> bool) \<Rightarrow> store \<Rightarrow> oid \<Rightarrow> body \<Rightarrow> response \<times> store" where
  "post_review userValid st actor b =
     (if post_valid b
      then (let movieId = the (b_movieId b);
                review = \<lparr>user = actor, movie = movieId, rating = the (b_rating b),
                          reviewText = trim (the (b_reviewText b)), helpful = 0,
                          spoiler = (case b_spoiler b of None \<Rightarrow> False | Some v \<Rightarrow> v),
                          likes = [], dislikes = []\<rparr>
            in case movies st movieId of
                 None \<Rightarrow> (NotFound, st)
               | Some m \<Rightarrow>
                   (case findOne st actor movieId of
                      Some existingReview \<Rightarrow> (DuplicateReview, st)
                    | None \<Rightarrow>
                        (case review_save userValid st None review of
                           Failed st' \<Rightarrow> (ServerError, st')
                         | Done st' \<Rightarrow> (Created review, st'))))
      else (ValidationFailed, st))"

text \<open>\<open>router.put('/:reviewId')\<close>: update a review.\<close>

definition put_valid :: "body \<Rightarrow> bool" where
  "put_valid b =
     ((case b_rating b of None \<Rightarrow> True | Some n \<Rightarrow> rating_ok n)
      \<and> (case b_reviewText b of None \<Rightarrow> True | Some s \<Rightarrow> text_ok s))"

definition assign_fields :: "review_doc \<Rightarrow> body \<Rightarrow> review_doc" where
  "assign_fields review b =
     (let r1 = (case b_rating b of None \<Rightarrow> review | Some n \<Rightarrow> review\<lparr>rating := n\<rparr>);
          r2 = (case b_reviewText b of None \<Rightarrow> r1 | Some s \<Rightarrow> r1\<lparr>reviewText := trim s\<rparr>);
          r3 = (case b_spoiler b of None \<Rightarrow> r2 | Some v \<Rightarrow> r2\<lparr>spoiler := v\<rparr>)
      in r3)"

definition put_review ::
  "(user_doc \<Rightarrow> bool) \<Rightarrow> store \<Rightarrow> oid \<Rightarrow> oid \<Rightarrow> body \<Rightarrow> response \<times> store" where
  "put_review userValid st actor reviewId b =
     (if put_valid b
      then (case findById st reviewId of
              None \<Rightarrow> (NotFound, st)
            | Some review \<Rightarrow>
                if user review \<noteq> actor then (NotAuthorized, st)
                else (let review' = assign_fields review b
                      in case review_save userValid st (Some reviewId) review' of
                           Failed st' \<Rightarrow> (ServerError, st')
                         | Done st' \<Rightarrow> (Updated review', st')))
      else (ValidationFailed, st))"

text \<open>\<open>router.delete('/:reviewId')\<close>: delete a review.\<close>

definition delete_review ::
  "(user_doc \<Rightarrow> bool) \<Rightarrow> store \<Rightarrow> oid \<Rightarrow> oid \<Rightarrow> response \<times> store" where
  "delete_review userValid st actor reviewId =
     (case findById st reviewId of
        None \<Rightarrow> (NotFound, st)
      | Some review \<Rightarrow>
          if user review \<noteq> actor then (NotAuthorized, st)
          else (case review_remove userValid st reviewId review of
                  Failed st' \<Rightarrow> (ServerError, st')
                | Done st' \<Rightarrow> (Deleted, st')))"

text \<open>\<open>router.post('/:reviewId/reaction')\<close>: like or dislike a review.\<close>

definition reaction_valid :: "body \<Rightarrow> bool" where
  "reaction_valid b =
     (case b_reactionType b of None \<Rightarrow> False | Some t \<Rightarrow> t \<in> set [''like'', ''dislike''])"

definition post_reaction ::
  "(user_doc \<Rightarrow> bool) \<Rightarrow> store \<Rightarrow> oid \<Rightarrow> oid \<Rightarrow> body \<Rightarrow> response \<times> store" where
  "post_reaction userValid st actor reviewId b =
     (if reaction_valid b
      then (case findById st reviewId of
              None \<Rightarrow> (NotFound, st)
            | Some review \<Rightarrow>
                if user review = actor then (SelfReaction, st)
                else (case toggleReaction userValid st reviewId review actor
                             (the (b_reactionType b)) of
                        Failed st' \<Rightarrow> (ServerError, st')
                      | Done st' \<Rightarrow>
                          (Reacted (toggle review actor (the (b_reactionType b))), st')))
      else (ValidationFailed, st))"

section \<open>The user statistics route\<close>

text \<open>
  \<open>router.get('/:userId/stats')\<close>. The \<open>$group\<close> stage yields no row when the
  user has no review and one row otherwise. The \<open>topGenres\<close> and \<open>joinDate\<close>
  entries of the response are not numbers derived from the reviews' reactions or from
  the cached aggregates and are left out of the modelled object.
\<close>

record group_row =
  g_totalReviews :: nat
  g_averageRating :: rat
  g_totalLikes :: nat
  g_totalDislikes :: nat

definition aggregate_reviewStats :: "store \<Rightarrow> oid \<Rightarrow> group_row list" where
  "aggregate_reviewStats st uid =
     (let matched = find_user st uid
      in if matched = [] then []
         else [\<lparr>g_totalReviews = foldl (\<lambda>acc r. acc + 1) 0 matched,
                 g_averageRating = of_int (sum_list (map rating matched)) / of_nat (length matched),
                 g_totalLikes = foldl (\<lambda>acc r. acc + length (likes r)) 0 matched,
                 g_totalDislikes = foldl (\<lambda>acc r. acc + length (likes r)) 0 matched\<rparr>])"

text \<open>An object literal: the entries are assigned in order, a later key replacing an earlier one.\<close>

definition object_literal :: "(string \<times> rat) list \<Rightarrow> (string \<rightharpoonup> rat)" where
  "object_literal kvs = foldl (\<lambda>obj (k, v). obj(k \<mapsto> v)) Map.empty kvs"

definition first_or_zero :: "group_row list \<Rightarrow> (group_row \<Rightarrow> rat) \<Rightarrow> rat" where
  "first_or_zero rows field = (case rows of [] \<Rightarrow> 0 | g # rest \<Rightarrow> field g)"

definition stats_entries :: "group_row list \<Rightarrow> user_doc \<Rightarrow> (string \<times> rat) list" where
  "stats_entries reviewStats u =
     [(''totalReviews'', first_or_zero reviewStats (\<lambda>g. of_nat (g_totalReviews g))),
      (''averageRating'', Math_round (first_or_zero reviewStats g_averageRating * 10) / 10),
      (''totalLikes'', first_or_zero reviewStats (\<lambda>g. of_nat (g_totalLikes g))),
      (''totalDislikes'', first_or_zero reviewStats (\<lambda>g. of_nat (g_totalDislikes g))),
      (''totalReviews'', of_nat (u_totalReviews u)),
      (''averageRating'', u_averageRating u)]"

definition get_stats :: "store \<Rightarrow> oid \<Rightarrow> (string \<rightharpoonup> rat) option" where
  "get_stats st userId =
     (case users st userId of
        None \<Rightarrow> None
      | Some u \<Rightarrow> Some (object_literal (stats_entries (aggregate_reviewStats st userId) u)))"

section \<open>Predicates and projections used in the statements\<close>

text \<open>
  The \<open>likes\<close> and \<open>dislikes\<close> arrays of a review represent sets: no user occurs
  twice in one of them, and no user occurs in both.
\<close>

definition reactions_ok :: "review_doc \<Rightarrow> bool" where
  "reactions_ok r = (distinct (likes r) \<and> distinct (dislikes r) \<and> set (likes r) \<inter> set (dislikes r) = {})"

definition stored_reactions_ok :: "store \<Rightarrow> bool" where
  "stored_reactions_ok st = list_all (\<lambda>(i, r). reactions_ok r) (reviews st)"

text \<open>The fields of a review that an update is not meant to touch.\<close>

definition kept_fields :: "review_doc \<Rightarrow> oid \<times> oid \<times> oid list \<times> oid list \<times> int" where
  "kept_fields r = (user r, movie r, likes r, dislikes r, helpful r)"

section \<open>Sample stores\<close>

text \<open>
  Concrete stores on which the operations are evaluated. In \<open>store_one_review\<close>
  movie 1 has a single review, rated 4, written by user 1, and user 2 has written none;
  in \<open>store_scenario\<close> movie 1 has two reviews, rated 4 and 5. All cached
  aggregates agree with the stored reviews. Every number that arises on these stores
  (\<open>4\<close>, \<open>4.5\<close>, \<open>3\<close>, \<open>2\<close>) is computed exactly by floating-point
  arithmetic as well. The user validators are taken to accept every document.
\<close>

definition sample_text :: string where
  "sample_text = ''A fine, fine film.''"

definition sample_review :: "oid \<Rightarrow> oid \<Rightarrow> int \<Rightarrow> review_doc" where
  "sample_review u m n =
     \<lparr>user = u, movie = m, rating = n, reviewText = sample_text, helpful = 0,
      spoiler = False, likes = [], dislikes = []\<rparr>"

definition create_body :: "oid \<Rightarrow> int \<Rightarrow> body" where
  "create_body m n =
     \<lparr>b_movieId = Some m, b_rating = Some n, b_reviewText = Some sample_text,
      b_spoiler = None, b_reactionType = None, b_other = []\<rparr>"

definition update_body :: "int \<Rightarrow> body" where
  "update_body n =
     \<lparr>b_movieId = None, b_rating = Some n, b_reviewText = None,
      b_spoiler = None, b_reactionType = None, b_other = [(''user'', ''7''), (''helpful'', ''99'')]\<rparr>"


definition reaction_body :: "string \<Rightarrow> body" where
  "reaction_body t =
     \<lparr>b_movieId = None, b_rating = None, b_reviewText = None,
      b_spoiler = None, b_reactionType = Some t, b_other = []\<rparr>"

definition any_user :: "user_doc \<Rightarrow> bool" where
  "any_user u = True"

definition store_one_review :: store where
  "store_one_review =
     \<lparr>movies = [1 \<mapsto> \<lparr>averageRating = 4, totalRatings = 1, totalReviews = 1\<rparr>],
      users = [1 \<mapsto> \<lparr>u_totalReviews = 1, u_averageRating = 4\<rparr>,
               2 \<mapsto> \<lparr>u_totalReviews = 0, u_averageRating = 0\<rparr>],
      reviews = [(1, sample_review 1 1 4)]\<rparr>"

definition store_after_create :: store where
  "store_after_create = snd (post_review any_user store_one_review 2 (create_body 1 2))"

definition store_scenario :: store where
  "store_scenario =
     \<lparr>movies = [1 \<mapsto> \<lparr>averageRating = 9 / 2, totalRatings = 2, totalReviews = 2\<rparr>],
      users = [1 \<mapsto> \<lparr>u_totalReviews = 1, u_averageRating = 4\<rparr>,
               2 \<mapsto> \<lparr>u_totalReviews = 1, u_averageRating = 5\<rparr>,
               3 \<mapsto> \<lparr>u_totalReviews = 0, u_averageRating = 0\<rparr>],
      reviews = [(1, sample_review 1 1 4), (2, sample_review 2 1 5)]\<rparr>"

definition scenario_after_create :: store where
  "scenario_after_create = snd (post_review any_user store_scenario 3 (create_body 1 3))"

definition scenario_after_delete :: store where
  "scenario_after_delete = snd (delete_review any_user scenario_after_create 2 2)"

definition review_with_reactions :: review_doc where
  "review_with_reactions = (sample_review 1 1 4)\<lparr>likes := [2, 3], dislikes := [4]\<rparr>"

definition store_with_reactions :: store where
  "store_with_reactions =
     \<lparr>movies = [1 \<mapsto> \<lparr>averageRating = 4, totalRatings = 1, totalReviews = 1\<rparr>],
      users = [1 \<mapsto> \<lparr>u_totalReviews = 1, u_averageRating = 4\<rparr>],
      reviews = [(1, review_with_reactions)]\<rparr>"

section \<open>Auxiliary lemmas\<close>



lemma movie_save_reviews: "reviews (store_of (movie_save st mid m avg a b)) = reviews st"
  by (simp add: movie_save_def split: jsnum.splits)

lemma movie_save_users: "users (store_of (movie_save st mid m avg a b)) = users st"
  by (simp add: movie_save_def split: jsnum.splits)

lemma user_save_reviews: "reviews (store_of (user_save uv st uid u)) = reviews st"
  by (simp add: user_save_def)

lemma user_save_movies: "movies (store_of (user_save uv st uid u)) = movies st"
  by (simp add: user_save_def)

lemma pre_save_movie_reviews: "reviews (store_of (pre_save_movie st this)) = reviews st"
  by (simp add: pre_save_movie_def Let_def movie_save_reviews split: option.splits)

lemma pre_save_movie_users: "users (store_of (pre_save_movie st this)) = users st"
  by (simp add: pre_save_movie_def Let_def movie_save_users split: option.splits)

lemma pre_save_user_reviews: "reviews (store_of (pre_save_user uv st this)) = reviews st"
  by (simp add: pre_save_user_def Let_def user_save_reviews split: option.splits)

lemma pre_save_user_movies: "movies (store_of (pre_save_user uv st this)) = movies st"
  by (simp add: pre_save_user_def Let_def user_save_movies split: option.splits)

lemma pre_save_reviews: "reviews (store_of (pre_save uv st this)) = reviews st"
proof (cases "pre_save_movie st this")
  case (Done st')
  then have "reviews st' = reviews st"
    using pre_save_movie_reviews [of st this] by simp
  with Done show ?thesis
    by (simp add: pre_save_def pre_save_user_reviews)
next
  case (Failed st')
  then show ?thesis
    using pre_save_movie_reviews [of st this] by (simp add: pre_save_def)
qed

lemma find_user_cong: "reviews st' = reviews st \<Longrightarrow> find_user st' u = find_user st u"
  by (simp add: find_user_def)

lemma find_movie_cong: "reviews st' = reviews st \<Longrightarrow> find_movie st' m = find_movie st m"
  by (simp add: find_movie_def)

lemma findOne_member:
  "(i, r) \<in> set (reviews st) \<Longrightarrow> user r = u \<Longrightarrow> movie r = m \<Longrightarrow> findOne st u m \<noteq> None"
proof -
  assume a: "(i, r) \<in> set (reviews st)" and b: "user r = u" and c: "movie r = m"
  from a have "r \<in> set (map snd (reviews st))" by force
  with b c have "\<exists>x. x \<in> set (map snd (reviews st)) \<and> (user x = u \<and> movie x = m)" by blast
  then show ?thesis unfolding findOne_def find_None_iff by blast
qed

lemma indexOf_absent: "x \<notin> set xs \<Longrightarrow> indexOf xs x = - 1"
  by (induction xs) (simp_all add: Let_def)

lemma indexOf_present: "x \<in> set xs \<Longrightarrow> 0 \<le> indexOf xs x \<and> indexOf xs x < int (length xs)"
  by (induction xs) (auto simp: Let_def)

lemma indexOf_found_iff: "indexOf xs x > - 1 \<longleftrightarrow> x \<in> set xs"
  using indexOf_absent [of x xs] indexOf_present [of x xs] by fastforce

lemma splice1_nonneg:
  "0 \<le> i \<Longrightarrow> i < int (length xs) \<Longrightarrow> splice1 xs i = take (nat i) xs @ drop (Suc (nat i)) xs"
  by (simp add: splice1_def Let_def min_def)

lemma splice1_indexOf: "x \<in> set xs \<Longrightarrow> splice1 xs (indexOf xs x) = remove1 x xs"
proof (induction xs)
  case Nil
  then show ?case by simp
next
  case (Cons y ys)
  show ?case
  proof (cases "y = x")
    case True
    then show ?thesis by (simp add: splice1_def)
  next
    case False
    with Cons.prems have mem: "x \<in> set ys" by simp
    have bounds: "0 \<le> indexOf ys x \<and> indexOf ys x < int (length ys)"
      using indexOf_present [OF mem] .
    then have ne: "indexOf ys x \<noteq> - 1" by linarith
    have "splice1 (y # ys) (indexOf ys x + 1) = y # splice1 ys (indexOf ys x)"
      using bounds by (simp add: splice1_nonneg nat_add_distrib)
    with False ne Cons.IH [OF mem] show ?thesis by (simp add: Let_def)
  qed
qed

lemma toggle_like_in_likes:
  "u \<in> set (likes r) \<Longrightarrow> toggle r u ''like'' = r\<lparr>likes := remove1 u (likes r)\<rparr>"
  by (simp add: toggle_def Let_def indexOf_found_iff splice1_indexOf)

lemma toggle_like_in_dislikes:
  "u \<notin> set (likes r) \<Longrightarrow> u \<in> set (dislikes r) \<Longrightarrow>
   toggle r u ''like'' = r\<lparr>likes := likes r @ [u], dislikes := remove1 u (dislikes r)\<rparr>"
  by (simp add: toggle_def Let_def indexOf_found_iff splice1_indexOf)

lemma toggle_like_fresh:
  "u \<notin> set (likes r) \<Longrightarrow> u \<notin> set (dislikes r) \<Longrightarrow>
   toggle r u ''like'' = r\<lparr>likes := likes r @ [u]\<rparr>"
  by (simp add: toggle_def Let_def indexOf_found_iff)

lemma toggle_dislike_in_dislikes:
  "u \<in> set (dislikes r) \<Longrightarrow> toggle r u ''dislike'' = r\<lparr>dislikes := remove1 u (dislikes r)\<rparr>"
  by (simp add: toggle_def Let_def indexOf_found_iff splice1_indexOf)

lemma toggle_dislike_in_likes:
  "u \<notin> set (dislikes r) \<Longrightarrow> u \<in> set (likes r) \<Longrightarrow>
   toggle r u ''dislike'' = r\<lparr>dislikes := dislikes r @ [u], likes := remove1 u (likes r)\<rparr>"
  by (simp add: toggle_def Let_def indexOf_found_iff splice1_indexOf)

lemma toggle_dislike_fresh:
  "u \<notin> set (dislikes r) \<Longrightarrow> u \<notin> set (likes r) \<Longrightarrow>
   toggle r u ''dislike'' = r\<lparr>dislikes := dislikes r @ [u]\<rparr>"
  by (simp add: toggle_def Let_def indexOf_found_iff)

lemma toggle_other: "t \<noteq> ''like'' \<Longrightarrow> t \<noteq> ''dislike'' \<Longrightarrow> toggle r u t = r"
  by (simp add: toggle_def Let_def)

lemma toggle_like_ok: "reactions_ok r \<Longrightarrow> reactions_ok (toggle r u ''like'')"
proof -
  assume ok: "reactions_ok r"
  consider "u \<in> set (likes r)" | "u \<notin> set (likes r)" "u \<in> set (dislikes r)"
    | "u \<notin> set (likes r)" "u \<notin> set (dislikes r)" by blast
  then show ?thesis
  proof cases
    case 1
    with ok show ?thesis by (auto simp: toggle_like_in_likes reactions_ok_def)
  next
    case 2
    with ok show ?thesis by (auto simp: toggle_like_in_dislikes reactions_ok_def)
  next
    case 3
    with ok show ?thesis by (auto simp: toggle_like_fresh reactions_ok_def)
  qed
qed

lemma toggle_dislike_ok: "reactions_ok r \<Longrightarrow> reactions_ok (toggle r u ''dislike'')"
proof -
  assume ok: "reactions_ok r"
  consider "u \<in> set (dislikes r)" | "u \<notin> set (dislikes r)" "u \<in> set (likes r)"
    | "u \<notin> set (dislikes r)" "u \<notin> set (likes r)" by blast
  then show ?thesis
  proof cases
    case 1
    with ok show ?thesis by (auto simp: toggle_dislike_in_dislikes reactions_ok_def)
  next
    case 2
    with ok show ?thesis by (auto simp: toggle_dislike_in_likes reactions_ok_def)
  next
    case 3
    with ok show ?thesis by (auto simp: toggle_dislike_fresh reactions_ok_def)
  qed
qed

lemma toggle_ok: "reactions_ok r \<Longrightarrow> reactions_ok (toggle r u t)"
  using toggle_like_ok toggle_dislike_ok toggle_other by metis

lemma foldl_likes_shift:
  "foldl (\<lambda>acc r. acc + length (likes r)) a rs = a + sum_list (map (\<lambda>r. length (likes r)) rs)"
  by (induction rs arbitrary: a) simp_all

lemma stats_lookup_totalLikes:
  "object_literal (stats_entries rows u) ''totalLikes''
     = Some (first_or_zero rows (\<lambda>g. of_nat (g_totalLikes g)))"
  by (simp add: object_literal_def stats_entries_def)

lemma stats_lookup_totalDislikes:
  "object_literal (stats_entries rows u) ''totalDislikes''
     = Some (first_or_zero rows (\<lambda>g. of_nat (g_totalDislikes g)))"
  by (simp add: object_literal_def stats_entries_def)

lemma stats_lookup_totalReviews:
  "object_literal (stats_entries rows u) ''totalReviews'' = Some (of_nat (u_totalReviews u))"
  by (simp add: object_literal_def stats_entries_def)

lemma stats_lookup_averageRating:
  "object_literal (stats_entries rows u) ''averageRating'' = Some (u_averageRating u)"
  by (simp add: object_literal_def stats_entries_def)

lemma aggregate_totalDislikes:
  "first_or_zero (aggregate_reviewStats st uid) (\<lambda>g. of_nat (g_totalDislikes g))
     = of_nat (sum_list (map (\<lambda>r. length (likes r)) (find_user st uid)))"
  by (simp add: aggregate_reviewStats_def first_or_zero_def Let_def foldl_likes_shift)

lemma aggregate_totalLikes:
  "first_or_zero (aggregate_reviewStats st uid) (\<lambda>g. of_nat (g_totalLikes g))
     = of_nat (sum_list (map (\<lambda>r. length (likes r)) (find_user st uid)))"
  by (simp add: aggregate_reviewStats_def first_or_zero_def Let_def foldl_likes_shift)

lemma assign_fields_kept: "kept_fields (assign_fields r b) = kept_fields r"
  by (simp add: assign_fields_def kept_fields_def Let_def split: option.splits)

lemma replace_doc_kept:
  "map_of xs i = Some r \<Longrightarrow> kept_fields d = kept_fields r \<Longrightarrow>
   map (\<lambda>(j, x). (j, kept_fields x)) (replace_doc i d xs) = map (\<lambda>(j, x). (j, kept_fields x)) xs"
  by (induction i d xs rule: replace_doc.induct) auto

lemma replace_doc_others:
  "filter (\<lambda>(j, x). j \<noteq> i) (replace_doc i d xs) = filter (\<lambda>(j, x). j \<noteq> i) xs"
  by (induction i d xs rule: replace_doc.induct) auto

lemma save_existing_reviews:
  "reviews (store_of (review_save uv st (Some i) d)) = reviews st
   \<or> reviews (store_of (review_save uv st (Some i) d)) = replace_doc i d (reviews st)"
proof (cases "review_valid d")
  case False
  then show ?thesis by (simp add: review_save_def)
next
  case True
  show ?thesis
  proof (cases "pre_save uv st d")
    case (Done st')
    then have "reviews st' = reviews st" using pre_save_reviews [of uv st d] by simp
    with True Done show ?thesis by (simp add: review_save_def write_review_def)
  next
    case (Failed st')
    then have "reviews st' = reviews st" using pre_save_reviews [of uv st d] by simp
    with True Failed show ?thesis by (simp add: review_save_def)
  qed
qed

lemma put_review_reviews:
  "reviews (snd (put_review uv st actor i b)) = reviews st
   \<or> (\<exists>r. map_of (reviews st) i = Some r
        \<and> reviews (snd (put_review uv st actor i b)) = replace_doc i (assign_fields r b) (reviews st))"
proof (cases "put_valid b")
  case False
  then show ?thesis by (simp add: put_review_def)
next
  case True
  show ?thesis
  proof (cases "findById st i")
    case None
    with True show ?thesis by (simp add: put_review_def)
  next
    case (Some r)
    show ?thesis
    proof (cases "user r = actor")
      case False
      with True Some show ?thesis by (simp add: put_review_def)
    next
      case own: True
      have eq: "snd (put_review uv st actor i b) = store_of (review_save uv st (Some i) (assign_fields r b))"
        using True Some own by (simp add: put_review_def Let_def split: outcome.splits)
      from Some have "map_of (reviews st) i = Some r" by (simp add: findById_def)
      with eq save_existing_reviews [of uv st i "assign_fields r b"] show ?thesis by auto
    qed
  qed
qed

lemma movie_save_Done:
  "movie_save st mid m avg a b = Done st' \<Longrightarrow>
   \<exists>m'. movies st' mid = Some m' \<and> totalRatings m' = a \<and> totalReviews m' = b
        \<and> avg = Num (averageRating m')
        \<and> users st' = users st \<and> reviews st' = reviews st"
  by (auto simp: movie_save_def split: jsnum.splits if_splits)

lemma pre_save_movie_Done:
  assumes "pre_save_movie st this = Done st'" and "movies st (movie this) = Some m"
  shows "\<exists>m'. movies st' (movie this) = Some m'
     \<and> totalRatings m' = length (find_movie st (movie this))
     \<and> totalReviews m' = length (find_movie st (movie this))
     \<and> rounded_mean (find_movie st (movie this)) = Num (averageRating m')"
  using assms movie_save_Done [of st "movie this" m "rounded_mean (find_movie st (movie this))"
      "length (find_movie st (movie this))" "length (find_movie st (movie this))" st']
  by (auto simp: pre_save_movie_def Let_def)

lemma pre_save_user_Done:
  assumes "pre_save_user uv st this = Done st'" and "users st (user this) = Some u"
  shows "\<exists>u'. users st' (user this) = Some u'
     \<and> u_totalReviews u' = length (find_user st (user this))"
  using assms by (auto simp: pre_save_user_def Let_def user_save_def split: if_splits)

lemma pre_save_Done:
  assumes "pre_save uv st this = Done st'"
  shows "reviews st' = reviews st"
    and "users st (user this) = Some u \<Longrightarrow>
         \<exists>u'. users st' (user this) = Some u'
            \<and> u_totalReviews u' = length (find_user st (user this))"
    and "movies st (movie this) = Some m \<Longrightarrow>
         \<exists>m'. movies st' (movie this) = Some m'
            \<and> totalRatings m' = length (find_movie st (movie this))
            \<and> totalReviews m' = length (find_movie st (movie this))
            \<and> rounded_mean (find_movie st (movie this)) = Num (averageRating m')"
proof -
  from assms obtain st0 where m0: "pre_save_movie st this = Done st0"
    and u0: "pre_save_user uv st0 this = Done st'"
    by (auto simp: pre_save_def split: outcome.splits)
  have r0: "reviews st0 = reviews st" using pre_save_movie_reviews [of st this] m0 by simp
  have us0: "users st0 = users st" using pre_save_movie_users [of st this] m0 by simp
  have r1: "reviews st' = reviews st0" using pre_save_user_reviews [of uv st0 this] u0 by simp
  have ms1: "movies st' = movies st0" using pre_save_user_movies [of uv st0 this] u0 by simp
  show "reviews st' = reviews st" using r0 r1 by simp
  show "\<exists>u'. users st' (user this) = Some u'
            \<and> u_totalReviews u' = length (find_user st (user this))"
    if "users st (user this) = Some u"
    using pre_save_user_Done [OF u0, of u] that us0 find_user_cong [OF r0] by simp
  show "\<exists>m'. movies st' (movie this) = Some m'
            \<and> totalRatings m' = length (find_movie st (movie this))
            \<and> totalReviews m' = length (find_movie st (movie this))
            \<and> rounded_mean (find_movie st (movie this)) = Num (averageRating m')"
    if "movies st (movie this) = Some m"
    using pre_save_movie_Done [OF m0 that] ms1 by simp
qed






lemma map_of_replace_doc:
  "map_of xs i = Some r \<Longrightarrow> map_of (replace_doc i d xs) i = Some d"
  by (induction i d xs rule: replace_doc.induct) (auto split: if_splits)

lemma save_existing_Done:
  assumes "review_save uv st (Some i) d = Done st'"
  shows "reviews st' = replace_doc i d (reviews st)"
proof -
  from assms obtain st1 where ps: "pre_save uv st d = Done st1"
    and st': "st' = st1\<lparr>reviews := replace_doc i d (reviews st1)\<rparr>"
    by (auto simp: review_save_def write_review_def split: if_splits outcome.splits)
  have "reviews st1 = reviews st" using pre_save_Done(1) [OF ps] .
  with st' show ?thesis by simp
qed

lemma save_Failed:
  assumes "review_save uv st rid d = Failed st'"
  shows "reviews st' = reviews st"
proof (cases "review_valid d")
  case False
  with assms show ?thesis by (simp add: review_save_def)
next
  case True
  show ?thesis
  proof (cases "pre_save uv st d")
    case (Failed st1)
    with True assms pre_save_reviews [of uv st d] show ?thesis by (simp add: review_save_def)
  next
    case (Done st1)
    then have r1: "reviews st1 = reviews st" using pre_save_reviews [of uv st d] by simp
    from True Done assms have "write_review st1 rid d = Failed st'" by (simp add: review_save_def)
    then have "st' = st1"
      by (auto simp: write_review_def split: option.splits)
    with r1 show ?thesis by simp
  qed
qed

lemma toggleReaction_stored:
  assumes "findById st rid = Some r"
  shows "case toggleReaction uv st rid r u t of
           Done st' \<Rightarrow> findById st' rid = Some (toggle r u t)
         | Failed st' \<Rightarrow> findById st' rid = Some r"
proof (cases "toggleReaction uv st rid r u t")
  case (Done st')
  then have "reviews st' = replace_doc rid (toggle r u t) (reviews st)"
    by (simp add: toggleReaction_def save_existing_Done)
  with assms Done show ?thesis
    by (simp add: findById_def map_of_replace_doc)
next
  case (Failed st')
  then have "reviews st' = reviews st"
    by (simp add: toggleReaction_def save_Failed)
  with assms Failed show ?thesis by (simp add: findById_def)
qed

lemma pre_remove_reviews: "reviews (store_of (pre_remove uv st this)) = reviews st"
proof (cases "pre_remove_movie st this")
  case (Done st')
  then have "reviews st' = reviews st"
    using movie_save_reviews
    by (auto simp: pre_remove_movie_def Let_def split: option.splits if_splits)
       (metis store_of.simps(1))+
  moreover have "reviews (store_of (pre_remove_user uv st' this)) = reviews st'"
    by (simp add: pre_remove_user_def Let_def user_save_reviews split: option.splits)
  ultimately show ?thesis using Done by (simp add: pre_remove_def)
next
  case (Failed st')
  then have "reviews st' = reviews st"
    using movie_save_reviews
    by (auto simp: pre_remove_movie_def Let_def split: option.splits if_splits)
       (metis store_of.simps(2))+
  with Failed show ?thesis by (simp add: pre_remove_def)
qed

lemma list_all_replace_doc:
  "list_all (\<lambda>(i, r). P r) xs \<Longrightarrow> P d \<Longrightarrow> list_all (\<lambda>(i, r). P r) (replace_doc i d xs)"
  by (induction i d xs rule: replace_doc.induct) auto

lemma list_all_delete_doc:
  "list_all (\<lambda>(i, r). P r) xs \<Longrightarrow> list_all (\<lambda>(i, r). P r) (delete_doc i xs)"
  by (induction i xs rule: delete_doc.induct) auto

lemma map_of_list_all:
  "list_all (\<lambda>(i, r). P r) xs \<Longrightarrow> map_of xs i = Some r \<Longrightarrow> P r"
  by (induction xs) (auto split: if_splits)

lemma assign_fields_reactions_ok: "reactions_ok (assign_fields r b) = reactions_ok r"
  using assign_fields_kept [of r b] by (simp add: reactions_ok_def kept_fields_def)







section \<open>Creating, updating and deleting a review\<close>

text \<open>
  Two facts about the pre-save hook that hold on every store. A movie none of whose
  reviews is stored yet cannot receive its first review: the hook divides \<open>0\<close> by
  \<open>0\<close>, the movie is not saved and the request ends in a server error. And after
  every successful creation the movie's counters are one short of its stored reviews.
\<close>

lemma post_review_first_review_fails:
  assumes "post_valid b" and "b_movieId b = Some mid" and "movies st mid = Some m"
    and "find_movie st mid = []"
  shows "post_review userValid st actor b = (ServerError, st)"
proof -
  have none: "findOne st actor mid = None"
    using assms(4) by (auto simp: findOne_def find_movie_def find_None_iff filter_empty_conv)
  have valid: "10 \<le> length (trim (the (b_reviewText b))) \<and> length (trim (the (b_reviewText b))) \<le> 2000
      \<and> 1 \<le> the (b_rating b) \<and> the (b_rating b) \<le> 5"
    using assms(1) by (auto simp: post_valid_def rating_ok_def text_ok_def split: option.splits)
  show ?thesis
    using assms none valid
    by (simp add: post_review_def Let_def review_save_def review_valid_def pre_save_def
        pre_save_movie_def rounded_mean_def movie_save_def)
qed

lemma post_review_Created_counts:
  assumes "post_review userValid st actor b = (Created rv, st')"
    and "b_movieId b = Some mid" and "movies st mid = Some m"
  shows "\<exists>m'. movies st' mid = Some m'
     \<and> length (find_movie st' mid) = Suc (totalReviews m')
     \<and> length (find_movie st' mid) = Suc (totalRatings m')"
proof -
  from assms(1,2) obtain st1 where mv: "movie rv = mid"
    and ps: "pre_save userValid st rv = Done st1"
    and st': "st' = st1\<lparr>reviews := reviews st1 @ [(new_id st1, rv)]\<rparr>"
    by (auto simp: post_review_def Let_def review_save_def write_review_def
        split: if_splits option.splits outcome.splits)
  have r1: "reviews st1 = reviews st" using pre_save_Done(1) [OF ps] .
  from pre_save_Done(3) [OF ps, of m] assms(3) mv obtain m' where
    m': "movies st1 mid = Some m'" "totalRatings m' = length (find_movie st mid)"
      "totalReviews m' = length (find_movie st mid)"
    by auto
  have "length (find_movie st' mid) = Suc (length (find_movie st mid))"
    using mv by (simp add: st' r1 find_movie_def)
  with m' show ?thesis by (simp add: st')
qed

text \<open>
  C1. After a successful create-review operation the movie's cached aggregates should
  reflect the full updated review set of the movie, the new review included:
  \<open>totalReviews\<close> and \<open>totalRatings\<close> equal to the number of its reviews and
  \<open>averageRating\<close> equal to their mean rounded to one decimal. The code does not do
  this: the hook runs before the review is written. In \<open>store_one_review\<close> user 2
  submits a review of movie 1 rated 2; the request succeeds and movie 1 then has the two
  reviews rated 4 and 2, but its aggregates are still those of the old set
  (\<open>averageRating = 4\<close>, both counters \<open>1\<close>) where the claim asks for \<open>3\<close> and
  \<open>2\<close>, and the aggregates of user 2 are still zero.
\<close>

theorem post_review_aggregates_omit_new_review:
  "fst (post_review any_user store_one_review 2 (create_body 1 2)) = Created (sample_review 2 1 2)
   \<and> map rating (find_movie store_after_create 1) = [4, 2]
   \<and> movies store_after_create 1
       = Some \<lparr>averageRating = 4, totalRatings = 1, totalReviews = 1\<rparr>
   \<and> users store_after_create 2 = Some \<lparr>u_totalReviews = 0, u_averageRating = 0\<rparr>"
  by code_simp

text \<open>
  C2. The scenario: movie 1 starts with two reviews rated 4 and 5 (average 4.5, two
  reviews); a third review rated 3 is created, then the review rated 5 is deleted. The
  claim expects average 4.0 with 3 reviews after the creation and average 3.5 with 2
  reviews after the deletion. The code leaves 4.5 with 2 after the creation (the hook
  has not seen the new review) and 4.0 with 3 after the deletion (the hook still sees
  the review being deleted), while the stored reviews are rated 4, 3.
\<close>

theorem scenario_aggregates_lag_one_step:
  "movies store_scenario 1 = Some \<lparr>averageRating = 9 / 2, totalRatings = 2, totalReviews = 2\<rparr>
   \<and> map rating (find_movie store_scenario 1) = [4, 5]
   \<and> fst (post_review any_user store_scenario 3 (create_body 1 3)) = Created (sample_review 3 1 3)
   \<and> map rating (find_movie scenario_after_create 1) = [4, 5, 3]
   \<and> movies scenario_after_create 1
       = Some \<lparr>averageRating = 9 / 2, totalRatings = 2, totalReviews = 2\<rparr>
   \<and> findById scenario_after_create 2 = Some (sample_review 2 1 5)
   \<and> fst (delete_review any_user scenario_after_create 2 2) = Deleted
   \<and> map rating (find_movie scenario_after_delete 1) = [4, 3]
   \<and> movies scenario_after_delete 1
       = Some \<lparr>averageRating = 4, totalRatings = 3, totalReviews = 3\<rparr>"
  by code_simp

text \<open>
  C3. Deleting the only review of a movie should reset the movie's aggregates to
  \<open>averageRating = 0\<close>, \<open>totalRatings = 0\<close>, \<open>totalReviews = 0\<close>, and the
  author's aggregates to zero when it was the author's only review. The code does not:
  the pre-remove hook still finds the review that is being deleted, so its zero branch
  is not taken. In \<open>store_one_review\<close> user 1 deletes review 1; afterwards no review
  is stored, but movie 1 keeps \<open>(4, 1, 1)\<close> and user 1 keeps \<open>(1, 4)\<close>.
\<close>

theorem delete_only_review_keeps_aggregates:
  "find_movie store_one_review 1 = [sample_review 1 1 4]
   \<and> find_user store_one_review 1 = [sample_review 1 1 4]
   \<and> fst (delete_review any_user store_one_review 1 1) = Deleted
   \<and> reviews (snd (delete_review any_user store_one_review 1 1)) = []
   \<and> movies (snd (delete_review any_user store_one_review 1 1)) 1
       = Some \<lparr>averageRating = 4, totalRatings = 1, totalReviews = 1\<rparr>
   \<and> users (snd (delete_review any_user store_one_review 1 1)) 1
       = Some \<lparr>u_totalReviews = 1, u_averageRating = 4\<rparr>"
  by code_simp




text \<open>
  C5. When a review by the acting user for the movie is already stored, a request to
  create another one persists nothing and changes no aggregate: the store is returned
  as it was. If the request passes validation and the movie exists, the outcome is
  \<open>DuplicateReview\<close>.
\<close>

theorem duplicate_review_rejected:
  assumes "(i, r) \<in> set (reviews st)" and "user r = actor" and "movie r = mid"
    and "b_movieId b = Some mid"
  shows "snd (post_review userValid st actor b) = st
     \<and> (post_valid b \<longrightarrow> movies st mid \<noteq> None
          \<longrightarrow> fst (post_review userValid st actor b) = DuplicateReview)"
proof -
  from assms obtain e where "findOne st actor mid = Some e"
    using findOne_member by blast
  with assms(4) show ?thesis
    by (auto simp: post_review_def Let_def split: option.splits)
qed

theorem duplicate_review_rejected_witness:
  "(1, sample_review 1 1 4) \<in> set (reviews store_one_review)
   \<and> user (sample_review 1 1 4) = 1 \<and> movie (sample_review 1 1 4) = 1
   \<and> b_movieId (create_body 1 5) = Some 1
   \<and> post_valid (create_body 1 5) \<and> movies store_one_review 1 \<noteq> None
   \<and> snd (post_review any_user store_one_review 1 (create_body 1 5)) = store_one_review
   \<and> fst (post_review any_user store_one_review 1 (create_body 1 5)) = DuplicateReview"
proof -
  have h1: "(1, sample_review 1 1 4) \<in> set (reviews store_one_review)"
    by (simp add: store_one_review_def)
  have h2: "user (sample_review 1 1 4) = 1" and h3: "movie (sample_review 1 1 4) = 1"
    by (simp_all add: sample_review_def)
  have h4: "b_movieId (create_body 1 5) = Some 1"
    by (simp add: create_body_def)
  have v: "post_valid (create_body 1 5)"
    by code_simp
  have m: "movies store_one_review 1 \<noteq> None"
    by (simp add: store_one_review_def)
  from duplicate_review_rejected [OF h1 h2 h3 h4, of any_user] v m
  have "snd (post_review any_user store_one_review 1 (create_body 1 5)) = store_one_review
     \<and> fst (post_review any_user store_one_review 1 (create_body 1 5)) = DuplicateReview"
    by blast
  with h1 h2 h3 h4 v m show ?thesis by blast
qed

section \<open>Reactions\<close>

text \<open>
  That the reaction arrays of every stored review represent disjoint sets is an
  invariant of the store: each of the four review routes preserves it, whatever the
  outcome of the request.
\<close>

lemma post_review_reviews:
  "reviews (snd (post_review uv st actor b)) = reviews st
   \<or> (\<exists>i rv. likes rv = [] \<and> dislikes rv = []
        \<and> reviews (snd (post_review uv st actor b)) = reviews st @ [(i, rv)])"
proof (cases "post_review uv st actor b")
  case (Pair resp st')
  show ?thesis
  proof (cases "\<exists>rv. resp = Created rv")
    case True
    then obtain rv where c: "resp = Created rv" by blast
    with Pair obtain st1 where l: "likes rv = []" "dislikes rv = []"
      and ps: "pre_save uv st rv = Done st1"
      and st': "st' = st1\<lparr>reviews := reviews st1 @ [(new_id st1, rv)]\<rparr>"
      by (auto simp: post_review_def Let_def review_save_def write_review_def
          split: if_splits option.splits outcome.splits)
    have "reviews st1 = reviews st" using pre_save_Done(1) [OF ps] .
    with l st' Pair show ?thesis by auto
  next
    case False
    with Pair have "reviews st' = reviews st"
      by (auto simp: post_review_def Let_def save_Failed
          split: if_splits option.splits outcome.splits)
    with Pair show ?thesis by simp
  qed
qed

lemma post_review_reactions_ok:
  "stored_reactions_ok st \<Longrightarrow> stored_reactions_ok (snd (post_review uv st actor b))"
  using post_review_reviews [of uv st actor b]
  by (auto simp: stored_reactions_ok_def reactions_ok_def)

lemma put_review_reactions_ok:
  assumes ok: "stored_reactions_ok st"
  shows "stored_reactions_ok (snd (put_review uv st actor i b))"
proof -
  from put_review_reviews [of uv st actor i b] consider
    "reviews (snd (put_review uv st actor i b)) = reviews st"
    | r where "map_of (reviews st) i = Some r"
      "reviews (snd (put_review uv st actor i b)) = replace_doc i (assign_fields r b) (reviews st)"
    by blast
  then show ?thesis
  proof cases
    case 1
    with ok show ?thesis by (simp add: stored_reactions_ok_def)
  next
    case 2
    have "reactions_ok r"
      using ok 2(1) map_of_list_all [of reactions_ok "reviews st" i r]
      by (simp add: stored_reactions_ok_def)
    then have "reactions_ok (assign_fields r b)" by (simp add: assign_fields_reactions_ok)
    with ok 2(2) list_all_replace_doc [of reactions_ok "reviews st" "assign_fields r b" i]
    show ?thesis by (simp add: stored_reactions_ok_def)
  qed
qed

lemma delete_review_reactions_ok:
  "stored_reactions_ok st \<Longrightarrow> stored_reactions_ok (snd (delete_review uv st actor i))"
proof -
  assume ok: "stored_reactions_ok st"
  have "reviews (snd (delete_review uv st actor i)) = reviews st
      \<or> reviews (snd (delete_review uv st actor i)) = delete_doc i (reviews st)"
    using pre_remove_reviews
    by (auto simp: delete_review_def review_remove_def split: option.splits outcome.splits)
       (metis store_of.simps)+
  with ok list_all_delete_doc [of reactions_ok "reviews st" i] show ?thesis
    by (auto simp: stored_reactions_ok_def)
qed

lemma post_reaction_reactions_ok:
  "stored_reactions_ok st \<Longrightarrow> stored_reactions_ok (snd (post_reaction uv st actor i b))"
proof -
  assume ok: "stored_reactions_ok st"
  show ?thesis
  proof (cases "findById st i")
    case None
    with ok show ?thesis by (simp add: post_reaction_def)
  next
    case (Some r)
    then have rok: "reactions_ok r"
      using ok map_of_list_all [of reactions_ok "reviews st" i r]
      by (simp add: stored_reactions_ok_def findById_def)
    have "reviews (snd (post_reaction uv st actor i b)) = reviews st
      \<or> reviews (snd (post_reaction uv st actor i b))
          = replace_doc i (toggle r actor (the (b_reactionType b))) (reviews st)"
      using Some
      by (auto simp: post_reaction_def toggleReaction_def save_existing_Done save_Failed
          split: outcome.splits)
    moreover have "reactions_ok (toggle r actor (the (b_reactionType b)))"
      using rok by (rule toggle_ok)
    ultimately show ?thesis
      using ok list_all_replace_doc [of reactions_ok "reviews st"
          "toggle r actor (the (b_reactionType b))" i]
      by (auto simp: stored_reactions_ok_def)
  qed
qed

text \<open>
  C6. For a review whose likes and dislikes are disjoint sets: a like by a user who is
  in the dislikes removes the user from the dislikes and adds the user to the likes,
  and symmetrically for a dislike; a reaction the user already has is removed; and
  after any toggle the two sets are again disjoint (and still without repetition).
  \<open>toggleReaction\<close> then saves the review: when the save succeeds the stored
  review is the toggled one, and when it is rejected the stored review is as before.
\<close>

theorem toggle_reaction_mutual_exclusion:
  assumes "reactions_ok r"
  shows "(u \<in> set (dislikes r) \<longrightarrow>
            set (likes (toggle r u ''like'')) = insert u (set (likes r))
          \<and> set (dislikes (toggle r u ''like'')) = set (dislikes r) - {u})
       \<and> (u \<in> set (likes r) \<longrightarrow>
            set (dislikes (toggle r u ''dislike'')) = insert u (set (dislikes r))
          \<and> set (likes (toggle r u ''dislike'')) = set (likes r) - {u})
       \<and> (u \<in> set (likes r) \<longrightarrow>
            set (likes (toggle r u ''like'')) = set (likes r) - {u}
          \<and> dislikes (toggle r u ''like'') = dislikes r)
       \<and> (u \<in> set (dislikes r) \<longrightarrow>
            set (dislikes (toggle r u ''dislike'')) = set (dislikes r) - {u}
          \<and> likes (toggle r u ''dislike'') = likes r)
       \<and> set (likes (toggle r u t)) \<inter> set (dislikes (toggle r u t)) = {}
       \<and> reactions_ok (toggle r u t)
       \<and> (findById st reviewId = Some r \<longrightarrow>
            (case toggleReaction userValid st reviewId r u t of
               Done st' \<Rightarrow> findById st' reviewId = Some (toggle r u t)
             | Failed st' \<Rightarrow> findById st' reviewId = Some r))"
proof -
  have a: "u \<in> set (dislikes r) \<Longrightarrow> u \<notin> set (likes r)"
    and b: "u \<in> set (likes r) \<Longrightarrow> u \<notin> set (dislikes r)"
    using assms by (auto simp: reactions_ok_def)
  have d1: "distinct (likes r)" and d2: "distinct (dislikes r)"
    using assms by (simp_all add: reactions_ok_def)
  have p1: "u \<in> set (dislikes r) \<longrightarrow>
            set (likes (toggle r u ''like'')) = insert u (set (likes r))
          \<and> set (dislikes (toggle r u ''like'')) = set (dislikes r) - {u}"
    using a d2 by (auto simp: toggle_like_in_dislikes)
  have p2: "u \<in> set (likes r) \<longrightarrow>
            set (dislikes (toggle r u ''dislike'')) = insert u (set (dislikes r))
          \<and> set (likes (toggle r u ''dislike'')) = set (likes r) - {u}"
    using b d1 by (auto simp: toggle_dislike_in_likes)
  have p3: "u \<in> set (likes r) \<longrightarrow>
            set (likes (toggle r u ''like'')) = set (likes r) - {u}
          \<and> dislikes (toggle r u ''like'') = dislikes r"
    using d1 by (auto simp: toggle_like_in_likes)
  have p4: "u \<in> set (dislikes r) \<longrightarrow>
            set (dislikes (toggle r u ''dislike'')) = set (dislikes r) - {u}
          \<and> likes (toggle r u ''dislike'') = likes r"
    using d2 by (auto simp: toggle_dislike_in_dislikes)
  have p6: "reactions_ok (toggle r u t)"
    using assms by (rule toggle_ok)
  then have p5: "set (likes (toggle r u t)) \<inter> set (dislikes (toggle r u t)) = {}"
    by (simp add: reactions_ok_def)
  have p7: "findById st reviewId = Some r \<longrightarrow>
            (case toggleReaction userValid st reviewId r u t of
               Done st' \<Rightarrow> findById st' reviewId = Some (toggle r u t)
             | Failed st' \<Rightarrow> findById st' reviewId = Some r)"
    using toggleReaction_stored [where st = st and rid = reviewId and r = r] by blast
  from p1 p2 p3 p4 p5 p6 p7 show ?thesis by blast
qed

theorem toggle_reaction_mutual_exclusion_witness:
  "reactions_ok review_with_reactions
   \<and> 4 \<in> set (dislikes review_with_reactions) \<and> 2 \<in> set (likes review_with_reactions)
   \<and> set (likes (toggle review_with_reactions 4 ''like'')) = {2, 3, 4}
   \<and> set (dislikes (toggle review_with_reactions 4 ''like'')) = {}
   \<and> set (dislikes (toggle review_with_reactions 2 ''dislike'')) = {2, 4}
   \<and> set (likes (toggle review_with_reactions 2 ''dislike'')) = {3}
   \<and> set (likes (toggle review_with_reactions 2 ''like'')) = {3}
   \<and> dislikes (toggle review_with_reactions 2 ''like'') = [4]
   \<and> set (dislikes (toggle review_with_reactions 4 ''dislike'')) = {}
   \<and> likes (toggle review_with_reactions 4 ''dislike'') = [2, 3]
   \<and> set (likes (toggle review_with_reactions 4 ''like''))
       \<inter> set (dislikes (toggle review_with_reactions 4 ''like'')) = {}
   \<and> findById store_with_reactions 1 = Some review_with_reactions
   \<and> findById (store_of (toggleReaction any_user store_with_reactions 1
         review_with_reactions 4 ''like'')) 1 = Some (toggle review_with_reactions 4 ''like'')"
proof -
  have ok: "reactions_ok review_with_reactions"
    by (simp add: reactions_ok_def review_with_reactions_def)
  have l: "likes review_with_reactions = [2, 3]" and d: "dislikes review_with_reactions = [4]"
    by (simp_all add: review_with_reactions_def)
  have i4: "4 \<in> set (dislikes review_with_reactions)" and i2: "2 \<in> set (likes review_with_reactions)"
    by (simp_all add: l d)
  have fb: "findById store_with_reactions 1 = Some review_with_reactions"
    by (simp add: findById_def store_with_reactions_def)
  have dn: "case toggleReaction any_user store_with_reactions 1 review_with_reactions 4 ''like'' of
              Done st' \<Rightarrow> True | Failed st' \<Rightarrow> False"
    by code_simp
  note at4 = toggle_reaction_mutual_exclusion
    [OF ok, where u = 4 and t = "''like''" and st = store_with_reactions
      and reviewId = 1 and userValid = any_user]
  note at2 = toggle_reaction_mutual_exclusion
    [OF ok, where u = 2 and t = "''like''" and st = store_with_reactions
      and reviewId = 1 and userValid = any_user]
  have c1: "set (likes (toggle review_with_reactions 4 ''like'')) = {2, 3, 4}"
    using at4 i4 by (auto simp: l)
  have c2: "set (dislikes (toggle review_with_reactions 4 ''like'')) = {}"
    using at4 i4 by (auto simp: d)
  have c3: "set (dislikes (toggle review_with_reactions 2 ''dislike'')) = {2, 4}"
    using at2 i2 by (auto simp: d)
  have c4: "set (likes (toggle review_with_reactions 2 ''dislike'')) = {3}"
    using at2 i2 by (auto simp: l)
  have c5: "set (likes (toggle review_with_reactions 2 ''like'')) = {3}"
    using at2 i2 by (auto simp: l)
  have c6: "dislikes (toggle review_with_reactions 2 ''like'') = [4]"
    using at2 i2 by (simp add: d)
  have c7: "set (dislikes (toggle review_with_reactions 4 ''dislike'')) = {}"
    using at4 i4 by (auto simp: d)
  have c8: "likes (toggle review_with_reactions 4 ''dislike'') = [2, 3]"
    using at4 i4 by (simp add: l)
  have c9: "set (likes (toggle review_with_reactions 4 ''like''))
       \<inter> set (dislikes (toggle review_with_reactions 4 ''like'')) = {}"
    using at4 by blast
  have c10: "findById (store_of (toggleReaction any_user store_with_reactions 1
         review_with_reactions 4 ''like'')) 1 = Some (toggle review_with_reactions 4 ''like'')"
    using at4 fb dn
    by (cases "toggleReaction any_user store_with_reactions 1 review_with_reactions 4 ''like''")
       simp_all
  from ok i4 i2 c1 c2 c3 c4 c5 c6 c7 c8 c9 fb c10 show ?thesis by blast
qed

text \<open>
  C7. A reaction request by the author of the review changes nothing: the store, and
  with it the review's likes and dislikes, is returned as it was; for a request that
  passes validation the outcome is \<open>SelfReaction\<close>.
\<close>

theorem self_reaction_rejected:
  assumes "findById st reviewId = Some r" and "user r = actor"
  shows "snd (post_reaction userValid st actor reviewId b) = st
     \<and> findById (snd (post_reaction userValid st actor reviewId b)) reviewId = Some r
     \<and> (reaction_valid b \<longrightarrow> fst (post_reaction userValid st actor reviewId b) = SelfReaction)"
  using assms by (simp add: post_reaction_def)

theorem self_reaction_rejected_witness:
  "findById store_one_review 1 = Some (sample_review 1 1 4)
   \<and> user (sample_review 1 1 4) = 1
   \<and> reaction_valid (reaction_body ''like'')
   \<and> snd (post_reaction any_user store_one_review 1 1 (reaction_body ''like'')) = store_one_review
   \<and> fst (post_reaction any_user store_one_review 1 1 (reaction_body ''like'')) = SelfReaction"
proof -
  have h1: "findById store_one_review 1 = Some (sample_review 1 1 4)"
    by (simp add: findById_def store_one_review_def)
  have h2: "user (sample_review 1 1 4) = 1"
    by (simp add: sample_review_def)
  have v: "reaction_valid (reaction_body ''like'')"
    by (simp add: reaction_valid_def reaction_body_def)
  from self_reaction_rejected [OF h1 h2, of any_user "reaction_body ''like''"] v
  have "snd (post_reaction any_user store_one_review 1 1 (reaction_body ''like'')) = store_one_review
     \<and> fst (post_reaction any_user store_one_review 1 1 (reaction_body ''like'')) = SelfReaction"
    by blast
  with h1 h2 v show ?thesis by blast
qed

section \<open>User statistics\<close>

text \<open>
  C8. In the statistics of a user, \<open>totalDislikes\<close> is the sum of the sizes of the
  \<open>likes\<close> arrays of the user's reviews, not of the \<open>dislikes\<close> arrays, and so
  equals \<open>totalLikes\<close>.
\<close>

theorem stats_totalDislikes_sums_likes:
  assumes "users st userId = Some u"
  shows "\<exists>stats. get_stats st userId = Some stats
     \<and> stats ''totalDislikes''
         = Some (of_nat (sum_list (map (\<lambda>r. length (likes r)) (find_user st userId))))
     \<and> stats ''totalDislikes'' = stats ''totalLikes''"
  using assms
  by (simp add: get_stats_def stats_lookup_totalLikes stats_lookup_totalDislikes
        aggregate_totalDislikes aggregate_totalLikes)

theorem stats_totalDislikes_sums_likes_witness:
  "users store_with_reactions 1 = Some \<lparr>u_totalReviews = 1, u_averageRating = 4\<rparr>
   \<and> map (\<lambda>r. length (likes r)) (find_user store_with_reactions 1) = [2]
   \<and> map (\<lambda>r. length (dislikes r)) (find_user store_with_reactions 1) = [1]
   \<and> the (get_stats store_with_reactions 1) ''totalDislikes'' = Some 2
   \<and> the (get_stats store_with_reactions 1) ''totalLikes'' = Some 2"
proof -
  have h: "users store_with_reactions 1 = Some \<lparr>u_totalReviews = 1, u_averageRating = 4\<rparr>"
    by (simp add: store_with_reactions_def)
  have l: "map (\<lambda>r. length (likes r)) (find_user store_with_reactions 1) = [2]"
    by code_simp
  have d: "map (\<lambda>r. length (dislikes r)) (find_user store_with_reactions 1) = [1]"
    by code_simp
  from stats_totalDislikes_sums_likes [OF h] l
  have "the (get_stats store_with_reactions 1) ''totalDislikes'' = Some 2
     \<and> the (get_stats store_with_reactions 1) ''totalLikes'' = Some 2"
    by auto
  with h l d show ?thesis by blast
qed

text \<open>
  C9. The \<open>totalReviews\<close> and \<open>averageRating\<close> entries of the statistics are the
  user's cached fields: the object literal assigns both keys twice, and the later
  assignment, from the user document, replaces the freshly aggregated value.
\<close>

theorem stats_reports_cached_aggregates:
  assumes "users st userId = Some u"
  shows "\<exists>stats. get_stats st userId = Some stats
     \<and> stats ''totalReviews'' = Some (of_nat (u_totalReviews u))
     \<and> stats ''averageRating'' = Some (u_averageRating u)"
  using assms
  by (simp add: get_stats_def stats_lookup_totalReviews stats_lookup_averageRating)

theorem stats_reports_cached_aggregates_witness:
  "users store_after_create 2 = Some \<lparr>u_totalReviews = 0, u_averageRating = 0\<rparr>
   \<and> map rating (find_user store_after_create 2) = [2]
   \<and> the (get_stats store_after_create 2) ''totalReviews'' = Some 0
   \<and> the (get_stats store_after_create 2) ''averageRating'' = Some 0"
proof -
  have h: "users store_after_create 2 = Some \<lparr>u_totalReviews = 0, u_averageRating = 0\<rparr>"
    by code_simp
  have f: "map rating (find_user store_after_create 2) = [2]"
    by code_simp
  from stats_reports_cached_aggregates [OF h]
  have "the (get_stats store_after_create 2) ''totalReviews'' = Some 0
     \<and> the (get_stats store_after_create 2) ''averageRating'' = Some 0"
    by auto
  with h f show ?thesis by blast
qed

section \<open>The frame of an update\<close>

text \<open>
  C10. Whatever the request body contains, a review update changes at most the
  \<open>rating\<close>, \<open>reviewText\<close> and \<open>spoiler\<close> of the addressed review: the user
  reference, movie reference, likes, dislikes and helpful counter of every stored
  review are as before, and every other review is unchanged altogether.
\<close>

theorem put_review_keeps_other_fields:
  "map (\<lambda>(j, x). (j, kept_fields x)) (reviews (snd (put_review userValid st actor reviewId b)))
     = map (\<lambda>(j, x). (j, kept_fields x)) (reviews st)
   \<and> filter (\<lambda>(j, x). j \<noteq> reviewId) (reviews (snd (put_review userValid st actor reviewId b)))
     = filter (\<lambda>(j, x). j \<noteq> reviewId) (reviews st)"
  using put_review_reviews [of userValid st actor reviewId b]
  by (auto simp: replace_doc_kept assign_fields_kept replace_doc_others)

theorem put_review_keeps_other_fields_witness:
  "fst (put_review any_user store_after_create 2 2 (update_body 5))
     = Updated ((sample_review 2 1 2)\<lparr>rating := 5\<rparr>)
   \<and> map (\<lambda>(j, x). (j, kept_fields x))
        (reviews (snd (put_review any_user store_after_create 2 2 (update_body 5))))
       = [(1, (1, 1, [], [], 0)), (2, (2, 1, [], [], 0))]
   \<and> filter (\<lambda>(j, x). j \<noteq> 2)
        (reviews (snd (put_review any_user store_after_create 2 2 (update_body 5))))
       = [(1, sample_review 1 1 4)]"
proof -
  have f: "fst (put_review any_user store_after_create 2 2 (update_body 5))
     = Updated ((sample_review 2 1 2)\<lparr>rating := 5\<rparr>)"
    by code_simp
  have k: "map (\<lambda>(j, x). (j, kept_fields x)) (reviews store_after_create)
       = [(1, (1, 1, [], [], 0)), (2, (2, 1, [], [], 0))]"
    by code_simp
  have o: "filter (\<lambda>(j, x). j \<noteq> 2) (reviews store_after_create) = [(1, sample_review 1 1 4)]"
    by code_simp
  from put_review_keeps_other_fields [of any_user store_after_create 2 2 "update_body 5"] k o
  have "map (\<lambda>(j, x). (j, kept_fields x))
        (reviews (snd (put_review any_user store_after_create 2 2 (update_body 5))))
       = [(1, (1, 1, [], [], 0)), (2, (2, 1, [], [], 0))]
     \<and> filter (\<lambda>(j, x). j \<noteq> 2)
        (reviews (snd (put_review any_user store_after_create 2 2 (update_body 5))))
       = [(1, sample_review 1 1 4)]"
    by simp
  with f show ?thesis by blast
qed

end
